theory Spec2Isabelle
  imports Complex_Main "HOL-Library.Log_Nat"
begin

section \<open>Python values, exceptions and arithmetic\<close>

text \<open>
  The register-decoding code of \<^verbatim>\<open>sensor.py\<close> works on Python lists of integers and
  produces Python numbers. An exception raised by the source is a value \<open>Inl e\<close> of the
  model; a normal return is \<open>Inr v\<close>.
\<close>

datatype py_error = IndexError | KeyError | ZeroDivisionError | OverflowError

text \<open>
  A Python number is an unbounded \<^verbatim>\<open>int\<close> or a \<^verbatim>\<open>float\<close>. A float is carried as the
  exact rational value of the IEEE binary64 number it holds (the rules below never produce
  an infinity, a NaN or a negative zero: integer true division raises instead of returning
  an infinity, and a non-zero integer divided by 10 or 100 is at least 0.01 in magnitude).
\<close>

datatype py_number = PyInt int | PyFloat rat

definition and_then :: "py_error + 'a \<Rightarrow> ('a \<Rightarrow> py_error + 'b) \<Rightarrow> py_error + 'b" where
  "and_then m f = (case m of Inl e \<Rightarrow> Inl e | Inr v \<Rightarrow> f v)"

text \<open>
  \<^verbatim>\<open>r[i]\<close> on a list: a negative index counts from the end, and an index outside the
  list raises \<^verbatim>\<open>IndexError\<close>.
\<close>

definition getitem :: "int list \<Rightarrow> int \<Rightarrow> py_error + int" where
  "getitem r i =
     (let j = (if i < 0 then i + int (length r) else i)
      in if 0 \<le> j \<and> j < int (length r) then Inr (r ! nat j) else Inl IndexError)"

subsection \<open>Binary64 rounding\<close>

text \<open>Rounding a rational to the nearest integer, ties to the even one.\<close>

definition round_half_even :: "rat \<Rightarrow> int" where
  "round_half_even x =
     (let f = \<lfloor>x\<rfloor>; d = x - of_int f
      in if d < 1 / 2 then f
         else if 1 / 2 < d then f + 1
         else if even f then f else f + 1)"

text \<open>For \<open>x > 0\<close>, the integer \<open>k\<close> with \<open>2 powi k \<le> x < 2 powi (k + 1)\<close>.\<close>

definition floor_log2 :: "rat \<Rightarrow> int" where
  "floor_log2 x =
     (let (n, d) = quotient_of x; k = bitlen n - bitlen d
      in if 2 powi k \<le> x then k else k - 1)"

text \<open>
  The binary64 number nearest to a rational (ties to even): 53 significant bits, the
  smallest exponent of the last place is \<open>-1074\<close> (gradual underflow), and a result that
  rounds to \<open>2 powi 1024\<close> or more does not fit, which Python reports as
  \<^verbatim>\<open>OverflowError\<close>.
\<close>

definition binary64 :: "rat \<Rightarrow> py_error + rat" where
  "binary64 x =
     (if x = 0 then Inr 0
      else let e = max (floor_log2 \<bar>x\<bar> - 52) (- 1074);
               y = of_int (round_half_even (\<bar>x\<bar> / 2 powi e)) * 2 powi e
           in if 2 powi 1024 \<le> y then Inl OverflowError else Inr (sgn x * y))"

text \<open>
  \<^verbatim>\<open>a / b\<close> on two Python ints is true division: the exact quotient, correctly rounded
  to a float; \<^verbatim>\<open>ZeroDivisionError\<close> for a zero divisor.
\<close>

definition truediv :: "int \<Rightarrow> int \<Rightarrow> py_error + py_number" where
  "truediv a b =
     (if b = 0 then Inl ZeroDivisionError
      else and_then (binary64 (of_int a / of_int b)) (\<lambda>y. Inr (PyFloat y)))"

text \<open>
  \<^verbatim>\<open>round(x, n)\<close> with \<open>n \<ge> 0\<close>: an int is returned as it is; a float is rounded to
  \<open>n\<close> decimal places on its exact value (ties to even) and the decimal result is converted
  back to the nearest float. Beyond 323 places every float is returned unchanged.
\<close>

definition py_round :: "py_number \<Rightarrow> nat \<Rightarrow> py_error + py_number" where
  "py_round v n =
     (case v of
        PyInt i \<Rightarrow> Inr (PyInt i)
      | PyFloat x \<Rightarrow>
          if 323 < n then Inr (PyFloat x)
          else and_then (binary64 (of_int (round_half_even (x * 10 ^ n)) / 10 ^ n))
                 (\<lambda>y. Inr (PyFloat y)))"

text \<open>
  Modelled from the spec: \<^verbatim>\<open>register_put_u32\<close> is imported from the module
  \<^verbatim>\<open>util\<close>, which is not part of the sources at hand. The specification describes the
  composite as two registers forming one unsigned 32-bit quantity, low word then high word:
  \<^verbatim>\<open>value = raw[low_idx] + raw[high_idx] * 65536\<close>.
\<close>

definition register_put_u32 :: "int \<Rightarrow> int \<Rightarrow> int" where
  "register_put_u32 low high = low + high * 65536"

section \<open>The measurement tables\<close>

datatype unit_of_measurement =
    PERCENTAGE | TEMP_CELSIUS | LIGHT_LUX
  | CONCENTRATION_PARTS_PER_MILLION | CONCENTRATION_MICROGRAMS_PER_CUBIC_METER
  | CONCENTRATION_PARTS_PER_BILLION
  | ENERGY_WATT_HOUR | POWER_WATT | ELECTRIC_POTENTIAL_VOLT | ELECTRIC_CURRENT_AMPERE
  | FREQUENCY_HERTZ

datatype state_class = STATE_CLASS_MEASUREMENT | STATE_CLASS_TOTAL | STATE_CLASS_TOTAL_INCREASING

datatype SensorDeviceClass =
    HUMIDITY | TEMPERATURE | ILLUMINANCE | CO2 | PM25 | PM10 | VOLATILE_ORGANIC_COMPOUNDS
  | POWER | ENERGY | VOLTAGE | CURRENT | POWER_FACTOR | FREQUENCY

type_synonym handler = "int list \<Rightarrow> py_error + py_number"

text \<open>
  An entry of \<^verbatim>\<open>AQM_GENERIC_SENSOR_DEFINE\<close> is a dict with the same five keys in every
  entry; it is a record here. The table itself is a dict keyed by strings, kept as an
  association list in the order of the source.
\<close>

record aqm_conf =
  uom :: unit_of_measurement
  aqm_value_handler :: handler
  aqm_device_class :: SensorDeviceClass
  aqm_state_class :: state_class
  aqm_sub_id :: string

definition AQM_GENERIC_SENSOR_DEFINE :: "(string \<times> aqm_conf) list" where
  "AQM_GENERIC_SENSOR_DEFINE =
    [ (''humidity'',
        \<lparr> uom = PERCENTAGE,
          aqm_value_handler =
            (\<lambda>r. and_then (getitem r 1) (\<lambda>x. and_then (truediv x 10) (\<lambda>q. py_round q 1))),
          aqm_device_class = HUMIDITY,
          aqm_state_class = STATE_CLASS_MEASUREMENT,
          aqm_sub_id = ''humidity'' \<rparr>),
      (''temperature'',
        \<lparr> uom = TEMP_CELSIUS,
          aqm_value_handler =
            (\<lambda>r. and_then (getitem r 0) (\<lambda>x. and_then (truediv x 10) (\<lambda>q. py_round q 1))),
          aqm_device_class = TEMPERATURE,
          aqm_state_class = STATE_CLASS_MEASUREMENT,
          aqm_sub_id = ''temperature'' \<rparr>),
      (''illuminance'',
        \<lparr> uom = LIGHT_LUX,
          aqm_value_handler = (\<lambda>r. and_then (getitem r 6) (\<lambda>x. Inr (PyInt x))),
          aqm_device_class = ILLUMINANCE,
          aqm_state_class = STATE_CLASS_MEASUREMENT,
          aqm_sub_id = ''illuminance'' \<rparr>),
      (''co2'',
        \<lparr> uom = CONCENTRATION_PARTS_PER_MILLION,
          aqm_value_handler = (\<lambda>r. and_then (getitem r 2) (\<lambda>x. Inr (PyInt x))),
          aqm_device_class = CO2,
          aqm_state_class = STATE_CLASS_MEASUREMENT,
          aqm_sub_id = ''co2'' \<rparr>),
      (''pm25'',
        \<lparr> uom = CONCENTRATION_MICROGRAMS_PER_CUBIC_METER,
          aqm_value_handler = (\<lambda>r. and_then (getitem r 3) (\<lambda>x. Inr (PyInt x))),
          aqm_device_class = PM25,
          aqm_state_class = STATE_CLASS_MEASUREMENT,
          aqm_sub_id = ''pm25'' \<rparr>),
      (''pm10'',
        \<lparr> uom = CONCENTRATION_MICROGRAMS_PER_CUBIC_METER,
          aqm_value_handler = (\<lambda>r. and_then (getitem r 4) (\<lambda>x. Inr (PyInt x))),
          aqm_device_class = PM10,
          aqm_state_class = STATE_CLASS_MEASUREMENT,
          aqm_sub_id = ''pm10'' \<rparr>),
      (''tvoc'',
        \<lparr> uom = CONCENTRATION_PARTS_PER_BILLION,
          aqm_value_handler = (\<lambda>r. and_then (getitem r 5) (\<lambda>x. Inr (PyInt x))),
          aqm_device_class = VOLATILE_ORGANIC_COMPOUNDS,
          aqm_state_class = STATE_CLASS_MEASUREMENT,
          aqm_sub_id = ''tvoc'' \<rparr>) ]"

definition PMM_KEY_POWER :: string where "PMM_KEY_POWER = ''power''"
definition PMM_KEY_THIS_MONTH_ENERGY :: string where
  "PMM_KEY_THIS_MONTH_ENERGY = ''this_month_energy''"
definition PMM_KEY_THIS_DAY_ENERGY :: string where
  "PMM_KEY_THIS_DAY_ENERGY = ''this_day_energy''"
definition PMM_KEY_TOTAL :: string where "PMM_KEY_TOTAL = ''total_energy''"
definition PMM_KEY_VOLTAGE :: string where "PMM_KEY_VOLTAGE = ''voltage''"
definition PMM_KEY_CURRENT :: string where "PMM_KEY_CURRENT = ''current''"
definition PMM_KEY_POWER_FACTOR :: string where "PMM_KEY_POWER_FACTOR = ''power_factor''"
definition PMM_KEY_FREQUENCY :: string where "PMM_KEY_FREQUENCY = ''frequency''"
definition PMM_KEY_THIS_HOUR_ENERGY :: string where
  "PMM_KEY_THIS_HOUR_ENERGY = ''this_hour_energy''"
definition PMM_KEY_BEFORE_HOUR_ENERGY :: string where
  "PMM_KEY_BEFORE_HOUR_ENERGY = ''before_hour_energy''"
definition PMM_KEY_YESTERDAY_ENERGY :: string where
  "PMM_KEY_YESTERDAY_ENERGY = ''yesterday_energy''"
definition PMM_KEY_LAST_MONTH_ENERGY :: string where
  "PMM_KEY_LAST_MONTH_ENERGY = ''last_month_energy''"
definition PMM_KEY_TWO_MONTHS_AGO_ENERGY :: string where
  "PMM_KEY_TWO_MONTHS_AGO_ENERGY = ''two_months_ago_energy''"
definition PMM_KEY_THIS_MONTH_FORECAST_ENERGY :: string where
  "PMM_KEY_THIS_MONTH_FORECAST_ENERGY = ''this_month_forecast_energy''"

record PmmConfig =
  nuom :: unit_of_measurement
  value_handler :: handler
  device_class :: SensorDeviceClass
  state_class :: state_class
  sub_id :: string

definition PMM_GENERIC_SENSOR_DEFINE :: "(string \<times> PmmConfig) list" where
  "PMM_GENERIC_SENSOR_DEFINE =
    [ (PMM_KEY_POWER,
        \<lparr> nuom = POWER_WATT,
          value_handler = (\<lambda>r. and_then (getitem r 2) (\<lambda>x. Inr (PyInt x))),
          device_class = POWER,
          state_class = STATE_CLASS_MEASUREMENT,
          sub_id = PMM_KEY_POWER \<rparr>),
      (PMM_KEY_THIS_MONTH_ENERGY,
        \<lparr> nuom = ENERGY_WATT_HOUR,
          value_handler = (\<lambda>r. and_then (getitem r 10) (\<lambda>x. Inr (PyInt (x * 10)))),
          device_class = ENERGY,
          state_class = STATE_CLASS_TOTAL,
          sub_id = PMM_KEY_THIS_MONTH_ENERGY \<rparr>),
      (PMM_KEY_THIS_DAY_ENERGY,
        \<lparr> nuom = ENERGY_WATT_HOUR,
          value_handler = (\<lambda>r. and_then (getitem r 8) (\<lambda>x. Inr (PyInt (x * 10)))),
          device_class = ENERGY,
          state_class = STATE_CLASS_TOTAL,
          sub_id = PMM_KEY_THIS_DAY_ENERGY \<rparr>),
      (PMM_KEY_TOTAL,
        \<lparr> nuom = ENERGY_WATT_HOUR,
          value_handler =
            (\<lambda>r. and_then (getitem r 40) (\<lambda>x. and_then (getitem r 41) (\<lambda>y.
                   Inr (PyInt (register_put_u32 x y))))),
          device_class = ENERGY,
          state_class = STATE_CLASS_TOTAL_INCREASING,
          sub_id = PMM_KEY_TOTAL \<rparr>),
      (PMM_KEY_VOLTAGE,
        \<lparr> nuom = ELECTRIC_POTENTIAL_VOLT,
          value_handler = (\<lambda>r. and_then (getitem r 0) (\<lambda>x. truediv x 10)),
          device_class = VOLTAGE,
          state_class = STATE_CLASS_MEASUREMENT,
          sub_id = PMM_KEY_VOLTAGE \<rparr>),
      (PMM_KEY_CURRENT,
        \<lparr> nuom = ELECTRIC_CURRENT_AMPERE,
          value_handler = (\<lambda>r. and_then (getitem r 1) (\<lambda>x. truediv x 100)),
          device_class = CURRENT,
          state_class = STATE_CLASS_MEASUREMENT,
          sub_id = PMM_KEY_CURRENT \<rparr>),
      (PMM_KEY_POWER_FACTOR,
        \<lparr> nuom = PERCENTAGE,
          value_handler = (\<lambda>r. and_then (getitem r 3) (\<lambda>x. truediv x 10)),
          device_class = POWER_FACTOR,
          state_class = STATE_CLASS_MEASUREMENT,
          sub_id = PMM_KEY_POWER_FACTOR \<rparr>),
      (PMM_KEY_FREQUENCY,
        \<lparr> nuom = FREQUENCY_HERTZ,
          value_handler = (\<lambda>r. and_then (getitem r 4) (\<lambda>x. truediv x 10)),
          device_class = FREQUENCY,
          state_class = STATE_CLASS_MEASUREMENT,
          sub_id = PMM_KEY_FREQUENCY \<rparr>),
      (PMM_KEY_THIS_HOUR_ENERGY,
        \<lparr> nuom = ENERGY_WATT_HOUR,
          value_handler =
            (\<lambda>r. and_then (getitem r 6) (\<lambda>x. and_then (getitem r 16) (\<lambda>y.
                   Inr (PyInt (x * 10 + y))))),
          device_class = ENERGY,
          state_class = STATE_CLASS_TOTAL,
          sub_id = PMM_KEY_THIS_HOUR_ENERGY \<rparr>),
      (PMM_KEY_BEFORE_HOUR_ENERGY,
        \<lparr> nuom = ENERGY_WATT_HOUR,
          value_handler = (\<lambda>r. and_then (getitem r 7) (\<lambda>x. Inr (PyInt (x * 10)))),
          device_class = ENERGY,
          state_class = STATE_CLASS_TOTAL,
          sub_id = PMM_KEY_BEFORE_HOUR_ENERGY \<rparr>),
      (PMM_KEY_YESTERDAY_ENERGY,
        \<lparr> nuom = ENERGY_WATT_HOUR,
          value_handler = (\<lambda>r. and_then (getitem r 9) (\<lambda>x. Inr (PyInt (x * 10)))),
          device_class = ENERGY,
          state_class = STATE_CLASS_TOTAL,
          sub_id = PMM_KEY_YESTERDAY_ENERGY \<rparr>),
      (PMM_KEY_LAST_MONTH_ENERGY,
        \<lparr> nuom = ENERGY_WATT_HOUR,
          value_handler = (\<lambda>r. and_then (getitem r 11) (\<lambda>x. Inr (PyInt (x * 10)))),
          device_class = ENERGY,
          state_class = STATE_CLASS_TOTAL,
          sub_id = PMM_KEY_LAST_MONTH_ENERGY \<rparr>),
      (PMM_KEY_TWO_MONTHS_AGO_ENERGY,
        \<lparr> nuom = ENERGY_WATT_HOUR,
          value_handler = (\<lambda>r. and_then (getitem r 12) (\<lambda>x. Inr (PyInt (x * 10)))),
          device_class = ENERGY,
          state_class = STATE_CLASS_TOTAL,
          sub_id = PMM_KEY_TWO_MONTHS_AGO_ENERGY \<rparr>),
      (PMM_KEY_THIS_MONTH_FORECAST_ENERGY,
        \<lparr> nuom = ENERGY_WATT_HOUR,
          value_handler = (\<lambda>r. and_then (getitem r 13) (\<lambda>x. Inr (PyInt (x * 10)))),
          device_class = ENERGY,
          state_class = STATE_CLASS_TOTAL,
          sub_id = PMM_KEY_THIS_MONTH_FORECAST_ENERGY \<rparr>) ]"

text \<open>\<^verbatim>\<open>d[k]\<close> on a dict: \<^verbatim>\<open>KeyError\<close> for a key that is not there.\<close>

definition dict_getitem :: "(string \<times> 'v) list \<Rightarrow> string \<Rightarrow> py_error + 'v" where
  "dict_getitem d k = (case map_of d k of None \<Rightarrow> Inl KeyError | Some v \<Rightarrow> Inr v)"

text \<open>
  The rule stored under a key, applied to a snapshot:
  \<^verbatim>\<open>AQM_GENERIC_SENSOR_DEFINE[k]["value_handler"](r)\<close> and
  \<^verbatim>\<open>PMM_GENERIC_SENSOR_DEFINE[k].value_handler(r)\<close>.
\<close>

definition aqm_decode :: "string \<Rightarrow> handler" where
  "aqm_decode k r =
     and_then (dict_getitem AQM_GENERIC_SENSOR_DEFINE k) (\<lambda>c. aqm_value_handler c r)"

definition pmm_decode :: "string \<Rightarrow> handler" where
  "pmm_decode k r =
     and_then (dict_getitem PMM_GENERIC_SENSOR_DEFINE k) (\<lambda>c. value_handler c r)"

text \<open>
  The single-register scale rules of the two profiles, each with the index of the register
  it reads and the number of decimal places of its divisor (10 or 100).
\<close>

definition scale_rules :: "(handler \<times> nat \<times> nat) list" where
  "scale_rules =
     [ (aqm_decode ''temperature'', 0, 1), (aqm_decode ''humidity'', 1, 1),
       (pmm_decode PMM_KEY_VOLTAGE, 0, 1), (pmm_decode PMM_KEY_CURRENT, 1, 2),
       (pmm_decode PMM_KEY_POWER_FACTOR, 3, 1), (pmm_decode PMM_KEY_FREQUENCY, 4, 1) ]"

text \<open>
  The highest register index each rule subscripts, read off the lambdas of the two tables.
  A snapshot covers a rule when it is longer than this index.
\<close>

definition aqm_highest_index :: "(string \<times> nat) list" where
  "aqm_highest_index =
     [ (''humidity'', 1), (''temperature'', 0), (''illuminance'', 6), (''co2'', 2),
       (''pm25'', 3), (''pm10'', 4), (''tvoc'', 5) ]"

definition pmm_highest_index :: "(string \<times> nat) list" where
  "pmm_highest_index =
     [ (PMM_KEY_POWER, 2), (PMM_KEY_THIS_MONTH_ENERGY, 10), (PMM_KEY_THIS_DAY_ENERGY, 8),
       (PMM_KEY_TOTAL, 41), (PMM_KEY_VOLTAGE, 0), (PMM_KEY_CURRENT, 1),
       (PMM_KEY_POWER_FACTOR, 3), (PMM_KEY_FREQUENCY, 4), (PMM_KEY_THIS_HOUR_ENERGY, 16),
       (PMM_KEY_BEFORE_HOUR_ENERGY, 7), (PMM_KEY_YESTERDAY_ENERGY, 9),
       (PMM_KEY_LAST_MONTH_ENERGY, 11), (PMM_KEY_TWO_MONTHS_AGO_ENERGY, 12),
       (PMM_KEY_THIS_MONTH_FORECAST_ENERGY, 13) ]"

text \<open>
  \<^verbatim>\<open>SensorDeviceClass\<close> is a string enumeration of the host platform; formatting a
  member in an f-string gives its value.
\<close>

fun SensorDeviceClass_str :: "SensorDeviceClass \<Rightarrow> string" where
  "SensorDeviceClass_str HUMIDITY = ''humidity''"
| "SensorDeviceClass_str TEMPERATURE = ''temperature''"
| "SensorDeviceClass_str ILLUMINANCE = ''illuminance''"
| "SensorDeviceClass_str CO2 = ''carbon_dioxide''"
| "SensorDeviceClass_str PM25 = ''pm25''"
| "SensorDeviceClass_str PM10 = ''pm10''"
| "SensorDeviceClass_str VOLATILE_ORGANIC_COMPOUNDS = ''volatile_organic_compounds''"
| "SensorDeviceClass_str POWER = ''power''"
| "SensorDeviceClass_str ENERGY = ''energy''"
| "SensorDeviceClass_str VOLTAGE = ''voltage''"
| "SensorDeviceClass_str CURRENT = ''current''"
| "SensorDeviceClass_str POWER_FACTOR = ''power_factor''"
| "SensorDeviceClass_str FREQUENCY = ''frequency''"

section \<open>Devices, proxies and virtual sensors\<close>

text \<open>
  A config entry as \<^verbatim>\<open>async_setup_entry\<close> reads it: its \<^verbatim>\<open>entry_id\<close> and the four
  items of \<^verbatim>\<open>entry.data\<close>, which the platform's configuration flow always stores.
\<close>

record entry_data =
  CONF_TYPE :: string
  CONF_IP :: string
  CONF_MAC :: string
  CONF_CFG :: int

record config_entry =
  entry_id :: string
  data :: entry_data

text \<open>
  The class \<^verbatim>\<open>Device\<close>, without its callback set and its event loop, which no refresh
  reads or writes.
\<close>

record Device =
  device_id :: string
  device_name :: string
  firmware_version :: string
  model :: string
  manufacturer :: string

definition Device_init :: "string \<Rightarrow> config_entry \<Rightarrow> Device" where
  "Device_init name config =
     \<lparr> device_id = name @ ''_'' @ entry_id config,
       device_name = name,
       firmware_version = ''2.03'',
       model = ''PMM300'',
       manufacturer = ''sihas'' \<rparr>"

text \<open>
  The base class \<^verbatim>\<open>SihasProxy\<close> lives in a module outside the sources at hand. The
  record holds the attributes \<^verbatim>\<open>sensor.py\<close> reads from a proxy: \<^verbatim>\<open>mac\<close>,
  \<^verbatim>\<open>device_type\<close>, \<^verbatim>\<open>registers\<close> and \<^verbatim>\<open>_attr_available\<close>. Its constructor and
  its method \<^verbatim>\<open>update\<close> (the poll of the device) are parameters of the functions below:
  \<open>super_init ip mac device_type config\<close> is the object the constructor leaves, and
  \<open>poll p\<close> is the proxy after one poll of the proxy \<open>p\<close>.
\<close>

record sihas_proxy =
  mac :: string
  device_type :: string
  registers :: "int list"
  attr_available :: bool

type_synonym sihas_init = "string \<Rightarrow> string \<Rightarrow> string \<Rightarrow> int \<Rightarrow> sihas_proxy"

record Pmm300 = sihas_proxy +
  pmm_name :: "string option"
  pmm_device :: Device

record Aqm300 = sihas_proxy +
  aqm_name :: "string option"

definition Pmm300_init ::
  "sihas_init \<Rightarrow> Device \<Rightarrow> string \<Rightarrow> string \<Rightarrow> string \<Rightarrow> int \<Rightarrow> string option \<Rightarrow> Pmm300" where
  "Pmm300_init super_init device ip' mac' device_type' config' name =
     (let base = super_init ip' mac' device_type' config'
      in \<lparr> mac = mac base, device_type = device_type base, registers = registers base,
           attr_available = attr_available base,
           pmm_name = name, pmm_device = device \<rparr>)"

definition Aqm300_init ::
  "sihas_init \<Rightarrow> string \<Rightarrow> string \<Rightarrow> string \<Rightarrow> int \<Rightarrow> string option \<Rightarrow> Aqm300" where
  "Aqm300_init super_init ip' mac' device_type' config' name =
     (let base = super_init ip' mac' device_type' config'
      in \<lparr> mac = mac base, device_type = device_type base, registers = registers base,
           attr_available = attr_available base,
           aqm_name = name \<rparr>)"

text \<open>
  Objects are shared by reference: a sensor holds the address of its proxy, and several
  sensors hold the same address. \<^verbatim>\<open>_attr_native_value\<close> is \<^verbatim>\<open>None\<close> until the first
  refresh.
\<close>

type_synonym addr = nat

record PmmVirtualSensor =
  pmm_proxy :: addr
  pmm_sensor_device :: Device
  pmm_attr_available :: bool
  pmm_attr_unique_id :: string
  pmm_attr_native_unit_of_measurement :: unit_of_measurement
  pmm_attr_name :: string
  pmm_attr_device_class :: SensorDeviceClass
  pmm_attr_state_class :: state_class
  pmm_sensor_name :: string
  pmm_handler :: handler
  pmm_attr_native_value :: "py_number option"

record AqmVirtualSensor =
  aqm_proxy :: addr
  aqm_attr_available :: bool
  aqm_attr_unique_id :: string
  aqm_attr_native_unit_of_measurement :: unit_of_measurement
  aqm_attr_name :: string
  aqm_attr_device_class :: SensorDeviceClass
  aqm_attr_state_class :: state_class
  aqm_handler :: handler
  aqm_attr_native_value :: "py_number option"

text \<open>
  \<^verbatim>\<open>f"{proxy.name} #{sub_id}" if proxy.name else unique_id\<close>: \<^verbatim>\<open>None\<close> and the empty
  string are both false.
\<close>

definition attr_name_of :: "string option \<Rightarrow> string \<Rightarrow> string \<Rightarrow> string" where
  "attr_name_of name sub unique_id =
     (case name of
        None \<Rightarrow> unique_id
      | Some n \<Rightarrow> if n = [] then unique_id else n @ '' #'' @ sub)"

definition PmmVirtualSensor_init :: "addr \<Rightarrow> Pmm300 \<Rightarrow> PmmConfig \<Rightarrow> PmmVirtualSensor" where
  "PmmVirtualSensor_init proxy_addr proxy conf =
     (let unique_id = device_type proxy @ ''-'' @ mac proxy @ ''-'' @ sub_id conf
      in \<lparr> pmm_proxy = proxy_addr,
           pmm_sensor_device = pmm_device proxy,
           pmm_attr_available = attr_available proxy,
           pmm_attr_unique_id = unique_id,
           pmm_attr_native_unit_of_measurement = nuom conf,
           pmm_attr_name = attr_name_of (pmm_name proxy) (sub_id conf) unique_id,
           pmm_attr_device_class = device_class conf,
           pmm_attr_state_class = state_class conf,
           pmm_sensor_name = sub_id conf,
           pmm_handler = value_handler conf,
           pmm_attr_native_value = None \<rparr>)"

definition AqmVirtualSensor_init :: "addr \<Rightarrow> Aqm300 \<Rightarrow> aqm_conf \<Rightarrow> AqmVirtualSensor" where
  "AqmVirtualSensor_init proxy_addr proxy conf =
     (let unique_id =
            device_type proxy @ ''-'' @ mac proxy @ ''-''
              @ SensorDeviceClass_str (aqm_device_class conf)
      in \<lparr> aqm_proxy = proxy_addr,
           aqm_attr_available = attr_available proxy,
           aqm_attr_unique_id = unique_id,
           aqm_attr_native_unit_of_measurement = uom conf,
           aqm_attr_name = attr_name_of (aqm_name proxy) (aqm_sub_id conf) unique_id,
           aqm_attr_device_class = aqm_device_class conf,
           aqm_attr_state_class = aqm_state_class conf,
           aqm_handler = aqm_value_handler conf,
           aqm_attr_native_value = None \<rparr>)"

text \<open>
  A list display evaluates its items from left to right; the first exception ends the
  evaluation.
\<close>

fun sequence :: "(py_error + 'a) list \<Rightarrow> py_error + 'a list" where
  "sequence [] = Inr []"
| "sequence (m # ms) = and_then m (\<lambda>x. and_then (sequence ms) (\<lambda>xs. Inr (x # xs)))"

definition Pmm300_get_sub_entities :: "addr \<Rightarrow> Pmm300 \<Rightarrow> py_error + PmmVirtualSensor list" where
  "Pmm300_get_sub_entities self_addr self =
     sequence
       (map (\<lambda>k. and_then (dict_getitem PMM_GENERIC_SENSOR_DEFINE k)
                    (\<lambda>conf. Inr (PmmVirtualSensor_init self_addr self conf)))
          [ PMM_KEY_POWER, PMM_KEY_THIS_MONTH_ENERGY, PMM_KEY_THIS_DAY_ENERGY, PMM_KEY_TOTAL,
            PMM_KEY_VOLTAGE, PMM_KEY_CURRENT, PMM_KEY_POWER_FACTOR, PMM_KEY_FREQUENCY,
            PMM_KEY_THIS_HOUR_ENERGY, PMM_KEY_BEFORE_HOUR_ENERGY, PMM_KEY_YESTERDAY_ENERGY,
            PMM_KEY_LAST_MONTH_ENERGY, PMM_KEY_TWO_MONTHS_AGO_ENERGY,
            PMM_KEY_THIS_MONTH_FORECAST_ENERGY ])"

definition Aqm300_get_sub_entities :: "addr \<Rightarrow> Aqm300 \<Rightarrow> py_error + AqmVirtualSensor list" where
  "Aqm300_get_sub_entities self_addr self =
     sequence
       (map (\<lambda>k. and_then (dict_getitem AQM_GENERIC_SENSOR_DEFINE k)
                    (\<lambda>conf. Inr (AqmVirtualSensor_init self_addr self conf)))
          [ ''co2'', ''pm25'', ''pm10'', ''tvoc'', ''humidity'', ''illuminance'',
            ''temperature'' ])"

text \<open>
  \<^verbatim>\<open>async_setup_entry\<close>: \<open>a\<close> is the address of the proxy object it creates. The result
  is what it hands to \<^verbatim>\<open>async_add_entities\<close>, or \<open>NothingAdded\<close> when it returns without
  calling it.
\<close>

datatype entities_added =
    NothingAdded
  | PmmAdded Pmm300 "PmmVirtualSensor list"
  | AqmAdded Aqm300 "AqmVirtualSensor list"

definition async_setup_entry :: "sihas_init \<Rightarrow> addr \<Rightarrow> config_entry \<Rightarrow> py_error + entities_added" where
  "async_setup_entry super_init a entry =
     (if CONF_TYPE (data entry) = ''PMM'' then
        (let device = Device_init ''PMM300'' entry;
             pmm = Pmm300_init super_init device (CONF_IP (data entry)) (CONF_MAC (data entry))
                     (CONF_TYPE (data entry)) (CONF_CFG (data entry)) None
         in and_then (Pmm300_get_sub_entities a pmm) (\<lambda>sub. Inr (PmmAdded pmm sub)))
      else if CONF_TYPE (data entry) = ''AQM'' then
        (let aqm = Aqm300_init super_init (CONF_IP (data entry)) (CONF_MAC (data entry))
                     (CONF_TYPE (data entry)) (CONF_CFG (data entry)) None
         in and_then (Aqm300_get_sub_entities a aqm) (\<lambda>sub. Inr (AqmAdded aqm sub)))
      else Inr NothingAdded)"

section \<open>Refreshing a sensor\<close>

text \<open>
  The objects a refresh can reach: the proxies and the sensors, each kind at its
  addresses.
\<close>

record world =
  pmm300s :: "addr \<Rightarrow> Pmm300"
  aqm300s :: "addr \<Rightarrow> Aqm300"
  pmm_sensors :: "addr \<Rightarrow> PmmVirtualSensor"
  aqm_sensors :: "addr \<Rightarrow> AqmVirtualSensor"

text \<open>
  \<^verbatim>\<open>update\<close> is three statements. Each is a step on the world that returns the exception
  it raised, if any, and the world it leaves:
  \<^verbatim>\<open>
  self._proxy.update()
  self._attr_native_value = self.value_handler(self._proxy.registers)
  self._attr_available = self._proxy._attr_available
  \<close>
\<close>

definition pmm_poll_step :: "(Pmm300 \<Rightarrow> Pmm300) \<Rightarrow> addr \<Rightarrow> world \<Rightarrow> world" where
  "pmm_poll_step poll self w =
     (let p = pmm_proxy (pmm_sensors w self)
      in w\<lparr>pmm300s := (pmm300s w)(p := poll (pmm300s w p))\<rparr>)"

definition pmm_decode_step :: "addr \<Rightarrow> world \<Rightarrow> py_error option \<times> world" where
  "pmm_decode_step self w =
     (let s = pmm_sensors w self
      in case pmm_handler s (registers (pmm300s w (pmm_proxy s))) of
           Inl e \<Rightarrow> (Some e, w)
         | Inr v \<Rightarrow>
             (None, w\<lparr>pmm_sensors := (pmm_sensors w)(self := s\<lparr>pmm_attr_native_value := Some v\<rparr>)\<rparr>))"

definition pmm_available_step :: "addr \<Rightarrow> world \<Rightarrow> world" where
  "pmm_available_step self w =
     (let s = pmm_sensors w self
      in w\<lparr>pmm_sensors := (pmm_sensors w)
             (self := s\<lparr>pmm_attr_available := attr_available (pmm300s w (pmm_proxy s))\<rparr>)\<rparr>)"

definition PmmVirtualSensor_update ::
  "(Pmm300 \<Rightarrow> Pmm300) \<Rightarrow> addr \<Rightarrow> world \<Rightarrow> py_error option \<times> world" where
  "PmmVirtualSensor_update poll self w =
     (case pmm_decode_step self (pmm_poll_step poll self w) of
        (Some e, w') \<Rightarrow> (Some e, w')
      | (None, w') \<Rightarrow> (None, pmm_available_step self w'))"

definition aqm_poll_step :: "(Aqm300 \<Rightarrow> Aqm300) \<Rightarrow> addr \<Rightarrow> world \<Rightarrow> world" where
  "aqm_poll_step poll self w =
     (let p = aqm_proxy (aqm_sensors w self)
      in w\<lparr>aqm300s := (aqm300s w)(p := poll (aqm300s w p))\<rparr>)"

definition aqm_decode_step :: "addr \<Rightarrow> world \<Rightarrow> py_error option \<times> world" where
  "aqm_decode_step self w =
     (let s = aqm_sensors w self
      in case aqm_handler s (registers (aqm300s w (aqm_proxy s))) of
           Inl e \<Rightarrow> (Some e, w)
         | Inr v \<Rightarrow>
             (None, w\<lparr>aqm_sensors := (aqm_sensors w)(self := s\<lparr>aqm_attr_native_value := Some v\<rparr>)\<rparr>))"

definition aqm_available_step :: "addr \<Rightarrow> world \<Rightarrow> world" where
  "aqm_available_step self w =
     (let s = aqm_sensors w self
      in w\<lparr>aqm_sensors := (aqm_sensors w)
             (self := s\<lparr>aqm_attr_available := attr_available (aqm300s w (aqm_proxy s))\<rparr>)\<rparr>)"

definition AqmVirtualSensor_update ::
  "(Aqm300 \<Rightarrow> Aqm300) \<Rightarrow> addr \<Rightarrow> world \<Rightarrow> py_error option \<times> world" where
  "AqmVirtualSensor_update poll self w =
     (case aqm_decode_step self (aqm_poll_step poll self w) of
        (Some e, w') \<Rightarrow> (Some e, w')
      | (None, w') \<Rightarrow> (None, aqm_available_step self w'))"

text \<open>The proxy of a sensor as the poll of a refresh leaves it.\<close>

definition pmm_polled :: "(Pmm300 \<Rightarrow> Pmm300) \<Rightarrow> addr \<Rightarrow> world \<Rightarrow> Pmm300" where
  "pmm_polled poll self w = pmm300s (pmm_poll_step poll self w) (pmm_proxy (pmm_sensors w self))"

definition aqm_polled :: "(Aqm300 \<Rightarrow> Aqm300) \<Rightarrow> addr \<Rightarrow> world \<Rightarrow> Aqm300" where
  "aqm_polled poll self w = aqm300s (aqm_poll_step poll self w) (aqm_proxy (aqm_sensors w self))"

section \<open>Example objects\<close>

text \<open>
  Concrete inputs on which the theorems below are instantiated: a constructor of the base
  class that leaves an empty snapshot, config entries, snapshots, two devices, three ways a
  poll can end, and a world in which every sensor address holds a sensor of the profile,
  all bound to the proxy at address 0.
\<close>

definition example_init :: sihas_init where
  "example_init ip' mac' device_type' config' =
     \<lparr> mac = mac', device_type = device_type', registers = [], attr_available = False \<rparr>"

definition pmm_entry :: config_entry where
  "pmm_entry =
     \<lparr> entry_id = ''e1'',
       data = \<lparr> CONF_TYPE = ''PMM'', CONF_IP = ''192.168.0.10'', CONF_MAC = ''a1b2c3'',
                CONF_CFG = 0 \<rparr> \<rparr>"

definition unknown_entry :: config_entry where
  "unknown_entry =
     \<lparr> entry_id = ''e2'',
       data = \<lparr> CONF_TYPE = ''XYZ'', CONF_IP = ''192.168.0.11'', CONF_MAC = ''d4e5f6'',
                CONF_CFG = 0 \<rparr> \<rparr>"

definition pmm_snapshot :: "int list" where
  "pmm_snapshot =
     [ 2200, 150, 500, 990, 600, 12, 34, 30, 410, 380, 5200, 4900, 5100, 6000,
       0, 0, 7, 9, 1, 100, 15, 40, 600, 0, 1, 0, 1, 0,
       0, 0, 0, 0, 0, 0, 0, 0, 0, 0, 0, 0, 1000, 2 ]"

definition aqm_snapshot :: "int list" where
  "aqm_snapshot = [215, 455, 600, 12, 20, 30, 340]"

definition example_pmm :: Pmm300 where
  "example_pmm =
     (Pmm300_init example_init (Device_init ''PMM300'' pmm_entry)
        ''192.168.0.10'' ''a1b2c3'' ''PMM'' 0 None)
       \<lparr> registers := pmm_snapshot, attr_available := True \<rparr>"

definition example_aqm :: Aqm300 where
  "example_aqm =
     (Aqm300_init example_init ''192.168.0.12'' ''0a0b0c'' ''AQM'' 0 None)
       \<lparr> registers := aqm_snapshot, attr_available := True \<rparr>"

definition poll_unreachable :: "'a sihas_proxy_scheme \<Rightarrow> 'a sihas_proxy_scheme" where
  "poll_unreachable p = p\<lparr>attr_available := False\<rparr>"

definition poll_truncated :: "'a sihas_proxy_scheme \<Rightarrow> 'a sihas_proxy_scheme" where
  "poll_truncated p = p\<lparr>registers := take 2 (registers p)\<rparr>"

definition poll_unchanged :: "'a sihas_proxy_scheme \<Rightarrow> 'a sihas_proxy_scheme" where
  "poll_unchanged p = p"

definition example_world :: world where
  "example_world =
     \<lparr> pmm300s = (\<lambda>a. example_pmm),
       aqm300s = (\<lambda>a. example_aqm),
       pmm_sensors =
         (\<lambda>a. PmmVirtualSensor_init 0 example_pmm (snd (PMM_GENERIC_SENSOR_DEFINE ! (a mod 14)))),
       aqm_sensors =
         (\<lambda>a. AqmVirtualSensor_init 0 example_aqm (snd (AQM_GENERIC_SENSOR_DEFINE ! (a mod 7)))) \<rparr>"

section \<open>Facts about the arithmetic\<close>

lemma and_then_Inr [simp]: "and_then (Inr v) f = f v"
  by (simp add: and_then_def)

lemma and_then_Inl [simp]: "and_then (Inl e) f = Inl e"
  by (simp add: and_then_def)

lemma round_half_even_bound: "\<bar>of_int (round_half_even x) - x\<bar> \<le> 1 / 2"
proof -
  define f where "f = \<lfloor>x\<rfloor>"
  have f: "of_int f \<le> x" "x < of_int f + 1" unfolding f_def by linarith+
  have r: "round_half_even x =
      (if x - of_int f < 1 / 2 then f
       else if 1 / 2 < x - of_int f then f + 1
       else if even f then f else f + 1)"
    unfolding round_half_even_def Let_def f_def by simp
  show ?thesis
  proof (cases "x - of_int f < 1 / 2")
    case True
    then show ?thesis using f r by simp
  next
    case False
    then show ?thesis using f r by (cases "1 / 2 < x - of_int f") auto
  qed
qed

lemma round_half_even_near:
  assumes "\<bar>x - of_int n\<bar> < 1 / 2"
  shows "round_half_even x = n"
proof -
  have b: "\<bar>of_int (round_half_even x) - x\<bar> \<le> 1 / 2" by (rule round_half_even_bound)
  have "\<bar>(of_int (round_half_even x) :: rat) - of_int n\<bar> < 1"
    using assms b by linarith
  then have "\<bar>(of_int (round_half_even x - n) :: rat)\<bar> < 1" by simp
  then have "\<bar>round_half_even x - n\<bar> < 1"
    by (metis of_int_abs of_int_less_1_iff)
  then show ?thesis by linarith
qed

lemma floor_log2_lower:
  assumes "0 < x"
  shows "2 powi floor_log2 x \<le> x"
proof -
  obtain n d where q: "quotient_of x = (n, d)" by (cases "quotient_of x")
  have d: "0 < d" using q quotient_of_denom_pos by blast
  have x: "x = of_int n / of_int d" using q quotient_of_div by blast
  have n: "0 < n" using assms d x by (simp add: zero_less_divide_iff)
  let ?k = "bitlen n - bitlen d"
  show ?thesis
  proof (cases "2 powi ?k \<le> x")
    case True
    then show ?thesis by (simp add: floor_log2_def q)
  next
    case False
    then have fl: "floor_log2 x = ?k - 1" by (simp add: floor_log2_def q)
    have bn: "2 ^ nat (bitlen n - 1) \<le> n" using bitlen_bounds[OF n] by blast
    have bd: "d < 2 ^ nat (bitlen d)" using bitlen_bounds[OF d] by blast
    have n1: "1 \<le> bitlen n" using n by (simp add: bitlen_alt_def)
    have d1: "1 \<le> bitlen d" using d by (simp add: bitlen_alt_def)
    have bn': "(2::rat) powi (bitlen n - 1) \<le> of_int n"
    proof -
      have "(of_int (2 ^ nat (bitlen n - 1)) :: rat) \<le> of_int n" using bn by (simp only: of_int_le_iff)
      then show ?thesis using n1 by (simp add: power_int_def)
    qed
    have bd': "(of_int d :: rat) \<le> 2 powi (bitlen d)"
    proof -
      have "(of_int d :: rat) \<le> of_int (2 ^ nat (bitlen d))" using bd by (simp only: of_int_le_iff less_imp_le)
      then show ?thesis using d1 by (simp add: power_int_def)
    qed
    have "?k - 1 = (bitlen n - 1) - bitlen d" by simp
    then have "(2::rat) powi (?k - 1) = 2 powi ((bitlen n - 1) - bitlen d)" by (simp only:)
    also have "\<dots> = 2 powi (bitlen n - 1) / 2 powi (bitlen d)"
      by (rule power_int_diff) simp
    also have "\<dots> \<le> of_int n / of_int d"
      using bn' bd' d n by (intro frac_le) auto
    finally show ?thesis using fl x by simp
  qed
qed

lemma floor_log2_upper:
  assumes "0 < x"
  shows "x < 2 powi (floor_log2 x + 1)"
proof -
  obtain n d where q: "quotient_of x = (n, d)" by (cases "quotient_of x")
  have d: "0 < d" using q quotient_of_denom_pos by blast
  have x: "x = of_int n / of_int d" using q quotient_of_div by blast
  have n: "0 < n" using assms d x by (simp add: zero_less_divide_iff)
  let ?k = "bitlen n - bitlen d"
  show ?thesis
  proof (cases "2 powi ?k \<le> x")
    case False
    then show ?thesis by (simp add: floor_log2_def q)
  next
    case True
    then have fl: "floor_log2 x = ?k" by (simp add: floor_log2_def q)
    have bn: "n < 2 ^ nat (bitlen n)" using bitlen_bounds[OF n] by blast
    have bd: "2 ^ nat (bitlen d - 1) \<le> d" using bitlen_bounds[OF d] by blast
    have n1: "1 \<le> bitlen n" using n by (simp add: bitlen_alt_def)
    have d1: "1 \<le> bitlen d" using d by (simp add: bitlen_alt_def)
    have bn': "(of_int n :: rat) < 2 powi (bitlen n)"
    proof -
      have "(of_int n :: rat) < of_int (2 ^ nat (bitlen n))" using bn by (simp only: of_int_less_iff)
      then show ?thesis using n1 by (simp add: power_int_def)
    qed
    have bd': "(2::rat) powi (bitlen d - 1) \<le> of_int d"
    proof -
      have "(of_int (2 ^ nat (bitlen d - 1)) :: rat) \<le> of_int d" using bd by (simp only: of_int_le_iff)
      then show ?thesis using d1 by (simp add: power_int_def)
    qed
    have "of_int n / of_int d < (2::rat) powi (bitlen n) / 2 powi (bitlen d - 1)"
      using bn' bd' d n by (intro frac_less) auto
    also have "\<dots> = 2 powi (bitlen n - (bitlen d - 1))"
      by (rule power_int_diff [symmetric]) simp
    also have "bitlen n - (bitlen d - 1) = ?k + 1" by simp
    finally show ?thesis using fl x by (simp only:)
  qed
qed


lemma floor_log2_less:
  assumes "0 < x" and "x < 2 powi k"
  shows "floor_log2 x < k"
proof -
  have lt: "(2::rat) powi floor_log2 x < 2 powi k"
    using floor_log2_lower[OF assms(1)] assms(2) by linarith
  show ?thesis
  proof (rule ccontr)
    assume "\<not> floor_log2 x < k"
    then have "(2::rat) powi k \<le> 2 powi floor_log2 x"
      by (intro power_int_increasing) auto
    with lt show False by simp
  qed
qed

lemma binary64_close:
  assumes "0 < x" and "x < 2 powi 13"
  shows "\<exists>y. binary64 x = Inr y \<and> \<bar>y - x\<bar> \<le> 1 / 2 ^ 41"
proof -
  define e where "e = max (floor_log2 \<bar>x\<bar> - 52) (- 1074)"
  define p where "p = (2::rat) powi e"
  define m where "m = round_half_even (\<bar>x\<bar> / p)"
  have ax: "\<bar>x\<bar> = x" using assms(1) by simp
  have "floor_log2 x < 13" using assms by (rule floor_log2_less)
  then have e: "e \<le> - 40" unfolding e_def ax by simp
  have p0: "0 < p" unfolding p_def by (simp add: power_int_def)
  have "p \<le> 2 powi (- 40)" unfolding p_def using e by (intro power_int_increasing) auto
  then have p40: "p / 2 \<le> 1 / 2 ^ 41" by (simp add: power_int_def power_one_over)
  have "\<bar>of_int m - x / p\<bar> \<le> 1 / 2"
    unfolding m_def ax by (rule round_half_even_bound)
  then have "\<bar>of_int m - x / p\<bar> * p \<le> 1 / 2 * p"
    using p0 by (intro mult_right_mono) auto
  then have "\<bar>(of_int m - x / p) * p\<bar> \<le> p / 2"
    using p0 by (simp add: abs_mult)
  then have c: "\<bar>of_int m * p - x\<bar> \<le> p / 2"
    using p0 by (simp add: left_diff_distrib)
  then have c41: "\<bar>of_int m * p - x\<bar> \<le> 1 / 2 ^ 41" using p40 by linarith
  have "(1::rat) / 2 ^ 41 \<le> 1" by simp
  moreover have "(2::rat) powi 13 + 1 < 2 powi 1024" by simp
  ultimately have small: "\<not> 2 powi 1024 \<le> of_int m * p" using c41 assms(2) by linarith
  have "binary64 x = Inr (of_int m * p)"
    using assms(1) small unfolding binary64_def Let_def e_def[symmetric] p_def[symmetric] m_def[symmetric]
    by simp
  then show ?thesis using c41 by blast
qed

lemma binary64_scaled:
  assumes "0 \<le> n" and "n \<le> 65535" and "k = 1 \<or> k = 2"
  shows "\<exists>y. binary64 (of_int n / 10 ^ k) = Inr y \<and> round_half_even (y * 10 ^ k) = n"
proof (cases "n = 0")
  case True
  then show ?thesis by (simp add: binary64_def round_half_even_def)
next
  case False
  define x :: rat where "x = of_int n / 10 ^ k"
  have k: "(10::rat) ^ k = 10 \<or> (10::rat) ^ k = 100" using assms(3) by auto
  have n: "(1::rat) \<le> of_int n" "(of_int n :: rat) \<le> 65535" using False assms by simp_all
  have x0: "0 < x" unfolding x_def using n k by auto
  have "x \<le> of_int n / 10" unfolding x_def using n k by auto
  then have "x < 2 powi 13" using n by simp
  with x0 obtain y where y: "binary64 x = Inr y" "\<bar>y - x\<bar> \<le> 1 / 2 ^ 41"
    using binary64_close by blast
  have "\<bar>y - x\<bar> * 10 ^ k \<le> 1 / 2 ^ 41 * 10 ^ k"
    using y(2) by (intro mult_right_mono) auto
  also have "\<dots> \<le> 1 / 2 ^ 41 * 100" using k by auto
  also have "\<dots> < 1 / 2" by simp
  finally have "\<bar>(y - x) * 10 ^ k\<bar> < 1 / 2" by (simp add: abs_mult)
  moreover have "x * 10 ^ k = of_int n" unfolding x_def by simp
  ultimately have "\<bar>y * 10 ^ k - of_int n\<bar> < 1 / 2" by (simp add: left_diff_distrib)
  then have "round_half_even (y * 10 ^ k) = n" by (rule round_half_even_near)
  then show ?thesis using y(1) unfolding x_def by blast
qed

lemma scaled_float:
  assumes "0 \<le> n" and "n \<le> 65535" and "k = 1 \<or> k = 2"
  shows "\<exists>y. truediv n (10 ^ k) = Inr (PyFloat y)
           \<and> binary64 (of_int n / 10 ^ k) = Inr y
           \<and> of_int (round_half_even (y * 10 ^ k)) / 10 ^ k = (of_int n / 10 ^ k :: rat)
           \<and> py_round (PyFloat y) k = Inr (PyFloat y)"
proof -
  obtain y where y: "binary64 (of_int n / 10 ^ k) = Inr y" "round_half_even (y * 10 ^ k) = n"
    using binary64_scaled [OF assms] by blast
  have k: "\<not> 323 < k" using assms(3) by auto
  have "truediv n (10 ^ k) = Inr (PyFloat y)"
    using y(1) by (simp add: truediv_def)
  moreover have "py_round (PyFloat y) k = Inr (PyFloat y)"
    using y k by (simp add: py_round_def)
  ultimately show ?thesis using y by simp
qed

section \<open>Facts about the tables\<close>

lemmas PMM_KEY_defs =
  PMM_KEY_POWER_def PMM_KEY_THIS_MONTH_ENERGY_def PMM_KEY_THIS_DAY_ENERGY_def
  PMM_KEY_TOTAL_def PMM_KEY_VOLTAGE_def PMM_KEY_CURRENT_def PMM_KEY_POWER_FACTOR_def
  PMM_KEY_FREQUENCY_def PMM_KEY_THIS_HOUR_ENERGY_def PMM_KEY_BEFORE_HOUR_ENERGY_def
  PMM_KEY_YESTERDAY_ENERGY_def PMM_KEY_LAST_MONTH_ENERGY_def
  PMM_KEY_TWO_MONTHS_AGO_ENERGY_def PMM_KEY_THIS_MONTH_FORECAST_ENERGY_def

lemma getitem_in_range:
  "0 \<le> i \<Longrightarrow> i < int (length r) \<Longrightarrow> getitem r i = Inr (r ! nat i)"
  by (simp add: getitem_def)

lemma getitem_out_of_range:
  "0 \<le> i \<Longrightarrow> int (length r) \<le> i \<Longrightarrow> getitem r i = Inl IndexError"
  by (simp add: getitem_def)

lemma getitem_take:
  "0 \<le> i \<Longrightarrow> i < int n \<Longrightarrow> n \<le> length r \<Longrightarrow> getitem (take n r) i = getitem r i"
  by (simp add: getitem_def)

lemma binary64_error: "binary64 x = Inl e \<Longrightarrow> e = OverflowError"
  by (auto simp: binary64_def Let_def split: if_splits)

lemma truediv_error: "truediv a b = Inl e \<Longrightarrow> e = ZeroDivisionError \<or> e = OverflowError"
  by (cases "binary64 (of_int a / of_int b)") (auto simp: truediv_def dest: binary64_error split: if_splits)

lemma py_round_error: "py_round v n = Inl e \<Longrightarrow> e = OverflowError"
  by (cases v; cases "binary64 (of_int (round_half_even (case v of PyFloat x \<Rightarrow> x * 10 ^ n | _ \<Rightarrow> 0)) / 10 ^ n)")
     (auto simp: py_round_def dest: binary64_error split: if_splits)

lemma handler_not_IndexError:
  "and_then (truediv x b) (\<lambda>q. py_round q n) \<noteq> Inl IndexError"
  "truediv x b \<noteq> Inl IndexError"
  by (cases "truediv x b"; auto dest: truediv_error py_round_error)+

lemma pmm_rules:
  "pmm_decode PMM_KEY_POWER r = and_then (getitem r 2) (\<lambda>x. Inr (PyInt x))"
  "pmm_decode PMM_KEY_THIS_MONTH_ENERGY r = and_then (getitem r 10) (\<lambda>x. Inr (PyInt (x * 10)))"
  "pmm_decode PMM_KEY_THIS_DAY_ENERGY r = and_then (getitem r 8) (\<lambda>x. Inr (PyInt (x * 10)))"
  "pmm_decode PMM_KEY_TOTAL r =
     and_then (getitem r 40) (\<lambda>x. and_then (getitem r 41) (\<lambda>y. Inr (PyInt (register_put_u32 x y))))"
  "pmm_decode PMM_KEY_VOLTAGE r = and_then (getitem r 0) (\<lambda>x. truediv x 10)"
  "pmm_decode PMM_KEY_CURRENT r = and_then (getitem r 1) (\<lambda>x. truediv x 100)"
  "pmm_decode PMM_KEY_POWER_FACTOR r = and_then (getitem r 3) (\<lambda>x. truediv x 10)"
  "pmm_decode PMM_KEY_FREQUENCY r = and_then (getitem r 4) (\<lambda>x. truediv x 10)"
  "pmm_decode PMM_KEY_THIS_HOUR_ENERGY r =
     and_then (getitem r 6) (\<lambda>x. and_then (getitem r 16) (\<lambda>y. Inr (PyInt (x * 10 + y))))"
  "pmm_decode PMM_KEY_BEFORE_HOUR_ENERGY r = and_then (getitem r 7) (\<lambda>x. Inr (PyInt (x * 10)))"
  "pmm_decode PMM_KEY_YESTERDAY_ENERGY r = and_then (getitem r 9) (\<lambda>x. Inr (PyInt (x * 10)))"
  "pmm_decode PMM_KEY_LAST_MONTH_ENERGY r = and_then (getitem r 11) (\<lambda>x. Inr (PyInt (x * 10)))"
  "pmm_decode PMM_KEY_TWO_MONTHS_AGO_ENERGY r = and_then (getitem r 12) (\<lambda>x. Inr (PyInt (x * 10)))"
  "pmm_decode PMM_KEY_THIS_MONTH_FORECAST_ENERGY r = and_then (getitem r 13) (\<lambda>x. Inr (PyInt (x * 10)))"
  by (simp_all add: pmm_decode_def dict_getitem_def PMM_GENERIC_SENSOR_DEFINE_def PMM_KEY_defs)

lemma aqm_rules:
  "aqm_decode ''humidity'' r =
     and_then (getitem r 1) (\<lambda>x. and_then (truediv x 10) (\<lambda>q. py_round q 1))"
  "aqm_decode ''temperature'' r =
     and_then (getitem r 0) (\<lambda>x. and_then (truediv x 10) (\<lambda>q. py_round q 1))"
  "aqm_decode ''illuminance'' r = and_then (getitem r 6) (\<lambda>x. Inr (PyInt x))"
  "aqm_decode ''co2'' r = and_then (getitem r 2) (\<lambda>x. Inr (PyInt x))"
  "aqm_decode ''pm25'' r = and_then (getitem r 3) (\<lambda>x. Inr (PyInt x))"
  "aqm_decode ''pm10'' r = and_then (getitem r 4) (\<lambda>x. Inr (PyInt x))"
  "aqm_decode ''tvoc'' r = and_then (getitem r 5) (\<lambda>x. Inr (PyInt x))"
  by (simp_all add: aqm_decode_def dict_getitem_def AQM_GENERIC_SENSOR_DEFINE_def)

section \<open>The decode rules\<close>

text \<open>
  Claim C3. On a snapshot of at least 42 registers whose registers 40 and 41 are in the
  range 0 to 65535, the total-energy rule of the PMM profile returns register 40 plus
  65536 times register 41 (register 40 is the low word), the result is at most
  4294967295, and the registers 1000 and 2 give 132072. The composition itself is the
  function \<open>register_put_u32\<close>, taken from the specification; the comment under the
  table in the source gives the same reading, \<^verbatim>\<open>r[41] * 65536 + r[40]\<close>.
\<close>

theorem total_energy_composite:
  assumes "42 \<le> length r"
    and "0 \<le> r ! 40" and "r ! 40 \<le> 65535" and "0 \<le> r ! 41" and "r ! 41 \<le> 65535"
  shows "pmm_decode PMM_KEY_TOTAL r = Inr (PyInt (r ! 40 + r ! 41 * 65536))
       \<and> r ! 40 + r ! 41 * 65536 \<le> 4294967295
       \<and> (r ! 40 = 1000 \<and> r ! 41 = 2 \<longrightarrow> pmm_decode PMM_KEY_TOTAL r = Inr (PyInt 132072))"
  using assms by (simp add: pmm_rules getitem_in_range register_put_u32_def)

theorem total_energy_composite_witness:
  "42 \<le> length pmm_snapshot
   \<and> 0 \<le> pmm_snapshot ! 40 \<and> pmm_snapshot ! 40 \<le> 65535
   \<and> 0 \<le> pmm_snapshot ! 41 \<and> pmm_snapshot ! 41 \<le> 65535
   \<and> pmm_snapshot ! 40 = 1000 \<and> pmm_snapshot ! 41 = 2
   \<and> pmm_decode PMM_KEY_TOTAL pmm_snapshot = Inr (PyInt 132072)"
  using total_energy_composite [of pmm_snapshot] by (simp add: pmm_snapshot_def)

text \<open>
  Claim C5. On a snapshot of at least 17 registers, the this-hour-energy rule of the PMM
  profile returns ten times register 6 plus register 16.
\<close>

theorem this_hour_energy_formula:
  "17 \<le> length r \<Longrightarrow>
   pmm_decode PMM_KEY_THIS_HOUR_ENERGY r = Inr (PyInt (r ! 6 * 10 + r ! 16))"
  by (simp add: pmm_rules getitem_in_range)

theorem this_hour_energy_formula_witness:
  "17 \<le> length pmm_snapshot \<and>
   pmm_decode PMM_KEY_THIS_HOUR_ENERGY pmm_snapshot = Inr (PyInt 347)"
  using this_hour_energy_formula [of pmm_snapshot] by (simp add: pmm_snapshot_def)

text \<open>
  Claim C4. On a snapshot that covers the register a single-register scale rule reads,
  with that register in the range 0 to 65535, each of the six scale rules (AQM temperature
  and humidity, PMM voltage, current, power factor and frequency) returns what
  \<^verbatim>\<open>round(raw / 10 ** k, k)\<close> returns: the float nearest to the quotient, whose
  value rounded to \<open>k\<close> decimal places is the quotient exactly. The AQM rules call
  \<^verbatim>\<open>round\<close>; the PMM rules do not, and return the same float. A humidity register of
  455 decodes to 45.5.
\<close>

theorem scale_rules_rounded:
  assumes "(f, i, k) \<in> set scale_rules"
    and "i < length r" and "0 \<le> r ! i" and "r ! i \<le> 65535"
  shows "f r = and_then (truediv (r ! i) (10 ^ k)) (\<lambda>q. py_round q k)
       \<and> (\<exists>y. f r = Inr (PyFloat y)
             \<and> binary64 (of_int (r ! i) / 10 ^ k) = Inr y
             \<and> of_int (round_half_even (y * 10 ^ k)) / 10 ^ k = (of_int (r ! i) / 10 ^ k :: rat)
             \<and> (r ! i = 455 \<and> k = 1 \<longrightarrow> y = 91 / 2))"
proof -
  have k: "k = 1 \<or> k = 2" using assms(1) by (auto simp: scale_rules_def)
  obtain y where y: "truediv (r ! i) (10 ^ k) = Inr (PyFloat y)"
      "binary64 (of_int (r ! i) / 10 ^ k) = Inr y"
      "of_int (round_half_even (y * 10 ^ k)) / 10 ^ k = (of_int (r ! i) / 10 ^ k :: rat)"
      "py_round (PyFloat y) k = Inr (PyFloat y)"
    using scaled_float [OF assms(3,4) k] by blast
  have g: "getitem r (int i) = Inr (r ! i)"
    using assms(2) by (simp add: getitem_in_range)
  have f: "f r = Inr (PyFloat y)"
    using assms(1) y(1,4) g by (auto simp: scale_rules_def aqm_rules pmm_rules)
  have "binary64 (455 / 10) = Inr (91 / 2)" by code_simp
  then have "r ! i = 455 \<and> k = 1 \<longrightarrow> y = 91 / 2" using y(2) by auto
  then show ?thesis using f y by auto
qed

theorem scale_rules_rounded_witness:
  "(aqm_decode ''humidity'', 1, 1) \<in> set scale_rules
   \<and> 1 < length aqm_snapshot \<and> 0 \<le> aqm_snapshot ! 1 \<and> aqm_snapshot ! 1 \<le> 65535
   \<and> aqm_snapshot ! 1 = 455
   \<and> aqm_decode ''humidity'' aqm_snapshot = Inr (PyFloat (91 / 2))"
proof -
  have m: "(aqm_decode ''humidity'', 1, 1) \<in> set scale_rules"
    by (simp add: scale_rules_def)
  have s: "1 < length aqm_snapshot" "0 \<le> aqm_snapshot ! 1" "aqm_snapshot ! 1 \<le> 65535"
    "aqm_snapshot ! 1 = 455"
    by (simp_all add: aqm_snapshot_def)
  from scale_rules_rounded [OF m s(1,2,3)] obtain y
    where "aqm_decode ''humidity'' aqm_snapshot = Inr (PyFloat y)"
      and "aqm_snapshot ! 1 = 455 \<and> (1::nat) = 1 \<longrightarrow> y = 91 / 2"
    by blast
  then have "aqm_decode ''humidity'' aqm_snapshot = Inr (PyFloat (91 / 2))"
    using s(4) by simp
  then show ?thesis using m s by simp
qed

text \<open>
  Claim C9. The AQM table has seven rules and the PMM table fourteen. No AQM rule raises
  \<^verbatim>\<open>IndexError\<close> on a snapshot of at least 7 registers, and its result is the one it
  gives on the first 7 registers alone; no PMM rule raises \<^verbatim>\<open>IndexError\<close> on a
  snapshot of at least 42 registers, and its result is the one it gives on the first 42
  registers alone.
\<close>

theorem profile_indices_in_range:
  "length AQM_GENERIC_SENSOR_DEFINE = 7 \<and> length PMM_GENERIC_SENSOR_DEFINE = 14
   \<and> (7 \<le> length r \<longrightarrow> (k, c) \<in> set AQM_GENERIC_SENSOR_DEFINE \<longrightarrow>
          aqm_value_handler c r \<noteq> Inl IndexError
          \<and> aqm_value_handler c r = aqm_value_handler c (take 7 r))
   \<and> (42 \<le> length r \<longrightarrow> (k', c') \<in> set PMM_GENERIC_SENSOR_DEFINE \<longrightarrow>
          value_handler c' r \<noteq> Inl IndexError
          \<and> value_handler c' r = value_handler c' (take 42 r))"
proof -
  have ne: "7 \<le> length r \<Longrightarrow> r \<noteq> []" "42 \<le> length r \<Longrightarrow> r \<noteq> []"
    by auto
  have a: "7 \<le> length r \<Longrightarrow> (k, c) \<in> set AQM_GENERIC_SENSOR_DEFINE \<Longrightarrow>
            aqm_value_handler c r \<noteq> Inl IndexError
            \<and> aqm_value_handler c r = aqm_value_handler c (take 7 r)"
    using ne(1)
    by (auto simp: AQM_GENERIC_SENSOR_DEFINE_def getitem_in_range handler_not_IndexError)
  have p: "42 \<le> length r \<Longrightarrow> (k', c') \<in> set PMM_GENERIC_SENSOR_DEFINE \<Longrightarrow>
            value_handler c' r \<noteq> Inl IndexError
            \<and> value_handler c' r = value_handler c' (take 42 r)"
    using ne(2)
    by (auto simp: PMM_GENERIC_SENSOR_DEFINE_def getitem_in_range handler_not_IndexError)
  have l: "length AQM_GENERIC_SENSOR_DEFINE = 7 \<and> length PMM_GENERIC_SENSOR_DEFINE = 14"
    by (simp add: AQM_GENERIC_SENSOR_DEFINE_def PMM_GENERIC_SENSOR_DEFINE_def)
  show ?thesis using l a p by blast
qed

theorem profile_indices_in_range_witness:
  "7 \<le> length pmm_snapshot
   \<and> (''illuminance'', snd (AQM_GENERIC_SENSOR_DEFINE ! 2)) \<in> set AQM_GENERIC_SENSOR_DEFINE
   \<and> aqm_value_handler (snd (AQM_GENERIC_SENSOR_DEFINE ! 2)) pmm_snapshot = Inr (PyInt 34)
   \<and> aqm_value_handler (snd (AQM_GENERIC_SENSOR_DEFINE ! 2)) (take 7 pmm_snapshot)
       = Inr (PyInt 34)
   \<and> 42 \<le> length pmm_snapshot
   \<and> (PMM_KEY_TOTAL, snd (PMM_GENERIC_SENSOR_DEFINE ! 3)) \<in> set PMM_GENERIC_SENSOR_DEFINE
   \<and> value_handler (snd (PMM_GENERIC_SENSOR_DEFINE ! 3)) pmm_snapshot = Inr (PyInt 132072)
   \<and> value_handler (snd (PMM_GENERIC_SENSOR_DEFINE ! 3)) (take 42 pmm_snapshot)
       = Inr (PyInt 132072)"
proof -
  have l: "7 \<le> length pmm_snapshot" "42 \<le> length pmm_snapshot"
    by (simp_all add: pmm_snapshot_def)
  have m: "(''illuminance'', snd (AQM_GENERIC_SENSOR_DEFINE ! 2)) \<in> set AQM_GENERIC_SENSOR_DEFINE"
    "(PMM_KEY_TOTAL, snd (PMM_GENERIC_SENSOR_DEFINE ! 3)) \<in> set PMM_GENERIC_SENSOR_DEFINE"
    by (simp_all add: AQM_GENERIC_SENSOR_DEFINE_def PMM_GENERIC_SENSOR_DEFINE_def)
  have v: "aqm_value_handler (snd (AQM_GENERIC_SENSOR_DEFINE ! 2)) pmm_snapshot = Inr (PyInt 34)"
    "value_handler (snd (PMM_GENERIC_SENSOR_DEFINE ! 3)) pmm_snapshot = Inr (PyInt 132072)"
    by (simp_all add: AQM_GENERIC_SENSOR_DEFINE_def PMM_GENERIC_SENSOR_DEFINE_def
          pmm_snapshot_def getitem_def register_put_u32_def)
  show ?thesis
    using profile_indices_in_range
      [of pmm_snapshot "''illuminance''" "snd (AQM_GENERIC_SENSOR_DEFINE ! 2)"
          PMM_KEY_TOTAL "snd (PMM_GENERIC_SENSOR_DEFINE ! 3)"] l m v
    by simp
qed

text \<open>
  Each rule raises \<^verbatim>\<open>IndexError\<close> exactly on the snapshots that do not cover the
  highest index it reads.
\<close>

lemma and_then_getitem_raises:
  "0 \<le> i \<Longrightarrow>
   (and_then (getitem r i) f = Inl IndexError)
     = (int (length r) \<le> i \<or> f (r ! nat i) = Inl IndexError)"
  by (auto simp: getitem_def)

lemma aqm_rule_raises_iff:
  assumes "(k, n) \<in> set aqm_highest_index"
  shows "(aqm_decode k r = Inl IndexError) = (length r \<le> n)"
  using assms unfolding aqm_highest_index_def
  by (auto simp: aqm_rules and_then_getitem_raises handler_not_IndexError)

lemma pmm_rule_raises_iff:
  assumes "(k, n) \<in> set pmm_highest_index"
  shows "(pmm_decode k r = Inl IndexError) = (length r \<le> n)"
  using assms unfolding pmm_highest_index_def
  by (auto simp: pmm_rules and_then_getitem_raises handler_not_IndexError)

section \<open>Refreshing a sensor: facts\<close>

lemma pmm_polled_eq:
  "pmm_polled poll self w = poll (pmm300s w (pmm_proxy (pmm_sensors w self)))"
  by (simp add: pmm_polled_def pmm_poll_step_def Let_def)

lemma aqm_polled_eq:
  "aqm_polled poll self w = poll (aqm300s w (aqm_proxy (aqm_sensors w self)))"
  by (simp add: aqm_polled_def aqm_poll_step_def Let_def)

lemma pmm_update_raises:
  assumes "pmm_handler (pmm_sensors w self) (registers (pmm_polled poll self w)) = Inl e"
  shows "PmmVirtualSensor_update poll self w = (Some e, pmm_poll_step poll self w)"
  using assms
  by (simp add: PmmVirtualSensor_update_def pmm_decode_step_def pmm_polled_def pmm_poll_step_def Let_def)

lemma pmm_update_returns:
  assumes "pmm_handler (pmm_sensors w self) (registers (pmm_polled poll self w)) = Inr v"
  shows "PmmVirtualSensor_update poll self w =
     (None, (pmm_poll_step poll self w)
        \<lparr>pmm_sensors := (pmm_sensors w)
           (self := (pmm_sensors w self)
              \<lparr>pmm_attr_native_value := Some v,
               pmm_attr_available := attr_available (pmm_polled poll self w)\<rparr>)\<rparr>)"
  using assms
  by (simp add: PmmVirtualSensor_update_def pmm_decode_step_def pmm_available_step_def
        pmm_polled_def pmm_poll_step_def Let_def)

lemma aqm_update_raises:
  assumes "aqm_handler (aqm_sensors w self) (registers (aqm_polled poll self w)) = Inl e"
  shows "AqmVirtualSensor_update poll self w = (Some e, aqm_poll_step poll self w)"
  using assms
  by (simp add: AqmVirtualSensor_update_def aqm_decode_step_def aqm_polled_def aqm_poll_step_def Let_def)

lemma aqm_update_returns:
  assumes "aqm_handler (aqm_sensors w self) (registers (aqm_polled poll self w)) = Inr v"
  shows "AqmVirtualSensor_update poll self w =
     (None, (aqm_poll_step poll self w)
        \<lparr>aqm_sensors := (aqm_sensors w)
           (self := (aqm_sensors w self)
              \<lparr>aqm_attr_native_value := Some v,
               aqm_attr_available := attr_available (aqm_polled poll self w)\<rparr>)\<rparr>)"
  using assms
  by (simp add: AqmVirtualSensor_update_def aqm_decode_step_def aqm_available_step_def
        aqm_polled_def aqm_poll_step_def Let_def)

lemma poll_step_frame:
  "pmm_sensors (pmm_poll_step poll self w) = pmm_sensors w"
  "aqm_sensors (pmm_poll_step poll self w) = aqm_sensors w"
  "aqm300s (pmm_poll_step poll self w) = aqm300s w"
  "q \<noteq> pmm_proxy (pmm_sensors w self) \<Longrightarrow> pmm300s (pmm_poll_step poll self w) q = pmm300s w q"
  "pmm_sensors (aqm_poll_step poll' self w) = pmm_sensors w"
  "aqm_sensors (aqm_poll_step poll' self w) = aqm_sensors w"
  "pmm300s (aqm_poll_step poll' self w) = pmm300s w"
  "q \<noteq> aqm_proxy (aqm_sensors w self) \<Longrightarrow> aqm300s (aqm_poll_step poll' self w) q = aqm300s w q"
  by (simp_all add: pmm_poll_step_def aqm_poll_step_def Let_def)

lemma example_pmm_sensor0:
  "pmm_proxy (pmm_sensors example_world 0) = 0"
  "pmm_handler (pmm_sensors example_world 0) = (\<lambda>r. and_then (getitem r 2) (\<lambda>x. Inr (PyInt x)))"
  "pmm_attr_native_value (pmm_sensors example_world 0) = None"
  "pmm_attr_available (pmm_sensors example_world 0)"
  by (simp_all add: example_world_def PmmVirtualSensor_init_def Let_def
        PMM_GENERIC_SENSOR_DEFINE_def example_pmm_def)

lemma example_aqm_sensor2:
  "aqm_proxy (aqm_sensors example_world 2) = 0"
  "aqm_handler (aqm_sensors example_world 2) = (\<lambda>r. and_then (getitem r 6) (\<lambda>x. Inr (PyInt x)))"
  "aqm_attr_native_value (aqm_sensors example_world 2) = None"
  "aqm_attr_available (aqm_sensors example_world 2)"
  by (simp_all add: example_world_def AqmVirtualSensor_init_def Let_def
        AQM_GENERIC_SENSOR_DEFINE_def example_aqm_def)

lemma example_polled:
  "registers (pmm_polled poll_unreachable 0 example_world) = pmm_snapshot"
  "\<not> attr_available (pmm_polled poll_unreachable 0 example_world)"
  "registers (aqm_polled poll_unreachable 2 example_world) = aqm_snapshot"
  "\<not> attr_available (aqm_polled poll_unreachable 2 example_world)"
  "registers (pmm_polled poll_truncated 0 example_world) = [2200, 150]"
  "registers (aqm_polled poll_truncated 2 example_world) = [215, 455]"
  "registers (pmm_polled poll_unchanged 0 example_world) = pmm_snapshot"
  "registers (aqm_polled poll_unchanged 2 example_world) = aqm_snapshot"
  by (simp_all add: pmm_polled_eq aqm_polled_eq example_pmm_sensor0 example_aqm_sensor2
        poll_unreachable_def poll_truncated_def poll_unchanged_def)
     (simp_all add: example_world_def example_pmm_def example_aqm_def pmm_snapshot_def
        aqm_snapshot_def)

lemma example_decoded:
  "and_then (getitem pmm_snapshot 2) (\<lambda>x. Inr (PyInt x)) = Inr (PyInt 500)"
  "and_then (getitem aqm_snapshot 6) (\<lambda>x. Inr (PyInt x)) = Inr (PyInt 340)"
  "and_then (getitem [2200, 150] 2) (\<lambda>x. Inr (PyInt x)) = Inl IndexError"
  "and_then (getitem [215, 455] 6) (\<lambda>x. Inr (PyInt x)) = Inl IndexError"
  by (simp_all add: getitem_def pmm_snapshot_def aqm_snapshot_def)

lemma example_rules:
  "pmm_handler (pmm_sensors example_world 0) = pmm_decode PMM_KEY_POWER"
  "aqm_handler (aqm_sensors example_world 2) = aqm_decode ''illuminance''"
  by (simp_all add: example_pmm_sensor0 example_aqm_sensor2 fun_eq_iff pmm_rules aqm_rules)

text \<open>
  Claim C1, as the code has it. \<^verbatim>\<open>update\<close> has no guard on the availability flag: when
  the proxy is unavailable after the poll and the rule decodes the snapshot, the refresh
  returns normally, the sensor's availability becomes false, and the rule has been
  evaluated on the registers: its result is stored as the native value.
\<close>

theorem unavailable_still_decodes:
  "(\<not> attr_available (pmm_polled poll self w) \<longrightarrow>
    pmm_handler (pmm_sensors w self) (registers (pmm_polled poll self w)) = Inr v \<longrightarrow>
      fst (PmmVirtualSensor_update poll self w) = None
      \<and> \<not> pmm_attr_available (pmm_sensors (snd (PmmVirtualSensor_update poll self w)) self)
      \<and> pmm_attr_native_value (pmm_sensors (snd (PmmVirtualSensor_update poll self w)) self)
          = Some v)
   \<and> (\<not> attr_available (aqm_polled poll' self' w) \<longrightarrow>
      aqm_handler (aqm_sensors w self') (registers (aqm_polled poll' self' w)) = Inr v' \<longrightarrow>
        fst (AqmVirtualSensor_update poll' self' w) = None
        \<and> \<not> aqm_attr_available (aqm_sensors (snd (AqmVirtualSensor_update poll' self' w)) self')
        \<and> aqm_attr_native_value (aqm_sensors (snd (AqmVirtualSensor_update poll' self' w)) self')
            = Some v')"
  by (simp add: pmm_update_returns aqm_update_returns)

theorem unavailable_still_decodes_witness:
  "\<not> attr_available (pmm_polled poll_unreachable 0 example_world)
   \<and> pmm_handler (pmm_sensors example_world 0)
        (registers (pmm_polled poll_unreachable 0 example_world)) = Inr (PyInt 500)
   \<and> fst (PmmVirtualSensor_update poll_unreachable 0 example_world) = None
   \<and> \<not> pmm_attr_available
         (pmm_sensors (snd (PmmVirtualSensor_update poll_unreachable 0 example_world)) 0)
   \<and> \<not> attr_available (aqm_polled poll_unreachable 2 example_world)
   \<and> aqm_handler (aqm_sensors example_world 2)
        (registers (aqm_polled poll_unreachable 2 example_world)) = Inr (PyInt 340)
   \<and> fst (AqmVirtualSensor_update poll_unreachable 2 example_world) = None
   \<and> aqm_attr_native_value
         (aqm_sensors (snd (AqmVirtualSensor_update poll_unreachable 2 example_world)) 2)
       = Some (PyInt 340)"
  using unavailable_still_decodes
    [of poll_unreachable 0 example_world "PyInt 500" poll_unreachable 2 "PyInt 340"]
  by (simp add: example_polled example_pmm_sensor0 example_aqm_sensor2 example_decoded)

text \<open>
  The claim as stated fails: the example proxy is unavailable after the poll and keeps its
  last snapshot; the power sensor, whose value was \<^verbatim>\<open>None\<close>, holds the decoded
  register 2 after the refresh.
\<close>

theorem unavailable_value_is_decoded:
  "\<not> attr_available (pmm_polled poll_unreachable 0 example_world)
   \<and> pmm_attr_native_value (pmm_sensors example_world 0) = None
   \<and> pmm_attr_native_value
        (pmm_sensors (snd (PmmVirtualSensor_update poll_unreachable 0 example_world)) 0)
      = Some (PyInt 500)"
proof -
  have "pmm_handler (pmm_sensors example_world 0)
          (registers (pmm_polled poll_unreachable 0 example_world)) = Inr (PyInt 500)"
    by (simp add: example_polled example_pmm_sensor0 example_decoded)
  then show ?thesis
    by (simp add: pmm_update_returns example_polled example_pmm_sensor0)
qed

text \<open>
  Claim C2, as the code has it. \<^verbatim>\<open>update\<close> has no handler around the call of the
  rule: when the snapshot the poll leaves does not cover the highest index of the sensor's
  rule, the refresh raises \<^verbatim>\<open>IndexError\<close> to its caller. No sensor has changed then:
  the refreshed sensor keeps its value and its availability, and so does every other
  sensor.
\<close>

theorem out_of_range_propagates:
  "((k, n) \<in> set pmm_highest_index \<longrightarrow>
    pmm_handler (pmm_sensors w self) = pmm_decode k \<longrightarrow>
    length (registers (pmm_polled poll self w)) \<le> n \<longrightarrow>
      fst (PmmVirtualSensor_update poll self w) = Some IndexError
      \<and> pmm_sensors (snd (PmmVirtualSensor_update poll self w)) = pmm_sensors w
      \<and> aqm_sensors (snd (PmmVirtualSensor_update poll self w)) = aqm_sensors w)
   \<and> ((k', n') \<in> set aqm_highest_index \<longrightarrow>
      aqm_handler (aqm_sensors w self') = aqm_decode k' \<longrightarrow>
      length (registers (aqm_polled poll' self' w)) \<le> n' \<longrightarrow>
        fst (AqmVirtualSensor_update poll' self' w) = Some IndexError
        \<and> aqm_sensors (snd (AqmVirtualSensor_update poll' self' w)) = aqm_sensors w
        \<and> pmm_sensors (snd (AqmVirtualSensor_update poll' self' w)) = pmm_sensors w)"
proof -
  have p: "(k, n) \<in> set pmm_highest_index \<Longrightarrow>
      pmm_handler (pmm_sensors w self) = pmm_decode k \<Longrightarrow>
      length (registers (pmm_polled poll self w)) \<le> n \<Longrightarrow>
      pmm_handler (pmm_sensors w self) (registers (pmm_polled poll self w)) = Inl IndexError"
    by (simp add: pmm_rule_raises_iff)
  have a: "(k', n') \<in> set aqm_highest_index \<Longrightarrow>
      aqm_handler (aqm_sensors w self') = aqm_decode k' \<Longrightarrow>
      length (registers (aqm_polled poll' self' w)) \<le> n' \<Longrightarrow>
      aqm_handler (aqm_sensors w self') (registers (aqm_polled poll' self' w)) = Inl IndexError"
    by (simp add: aqm_rule_raises_iff)
  show ?thesis
    using p a by (simp add: pmm_update_raises aqm_update_raises poll_step_frame)
qed

theorem out_of_range_propagates_witness:
  "(PMM_KEY_POWER, 2) \<in> set pmm_highest_index
   \<and> pmm_handler (pmm_sensors example_world 0) = pmm_decode PMM_KEY_POWER
   \<and> length (registers (pmm_polled poll_truncated 0 example_world)) \<le> 2
   \<and> fst (PmmVirtualSensor_update poll_truncated 0 example_world) = Some IndexError
   \<and> pmm_sensors (snd (PmmVirtualSensor_update poll_truncated 0 example_world))
       = pmm_sensors example_world
   \<and> (''illuminance'', 6) \<in> set aqm_highest_index
   \<and> aqm_handler (aqm_sensors example_world 2) = aqm_decode ''illuminance''
   \<and> length (registers (aqm_polled poll_truncated 2 example_world)) \<le> 6
   \<and> fst (AqmVirtualSensor_update poll_truncated 2 example_world) = Some IndexError
   \<and> aqm_sensors (snd (AqmVirtualSensor_update poll_truncated 2 example_world))
       = aqm_sensors example_world"
proof -
  have m: "(PMM_KEY_POWER, 2) \<in> set pmm_highest_index"
    "(''illuminance'', 6) \<in> set aqm_highest_index"
    by (simp_all add: pmm_highest_index_def aqm_highest_index_def)
  have l: "length (registers (pmm_polled poll_truncated 0 example_world)) \<le> 2"
    "length (registers (aqm_polled poll_truncated 2 example_world)) \<le> 6"
    by (simp_all add: example_polled)
  show ?thesis
    using out_of_range_propagates
      [where k = PMM_KEY_POWER and n = 2 and w = example_world and self = 0
         and poll = poll_truncated and k' = "''illuminance''" and n' = 6 and self' = 2
         and poll' = poll_truncated]
      m l example_rules
    by simp
qed

text \<open>
  The claim as stated fails: after a poll that leaves two registers, the refresh of the
  power sensor, which reads register 2, ends with \<^verbatim>\<open>IndexError\<close> raised out of
  \<^verbatim>\<open>update\<close>.
\<close>

theorem short_snapshot_raises:
  "length (registers (pmm_polled poll_truncated 0 example_world)) = 2
   \<and> PmmVirtualSensor_update poll_truncated 0 example_world
       = (Some IndexError, pmm_poll_step poll_truncated 0 example_world)"
proof -
  have "pmm_handler (pmm_sensors example_world 0)
          (registers (pmm_polled poll_truncated 0 example_world)) = Inl IndexError"
    by (simp add: example_polled example_pmm_sensor0 example_decoded)
  then show ?thesis
    by (simp add: pmm_update_raises example_polled)
qed

text \<open>
  Claim C8. A refresh of one sensor changes the proxy the sensor polls, and of the sensor
  itself at most the native value and the availability. Every other sensor, of either
  kind, every other proxy and every proxy of the other kind are as before.
\<close>

theorem refresh_frame:
  "(other \<noteq> self \<longrightarrow>
      pmm_sensors (snd (PmmVirtualSensor_update poll self w)) other = pmm_sensors w other)
   \<and> (q \<noteq> pmm_proxy (pmm_sensors w self) \<longrightarrow>
      pmm300s (snd (PmmVirtualSensor_update poll self w)) q = pmm300s w q)
   \<and> aqm_sensors (snd (PmmVirtualSensor_update poll self w)) = aqm_sensors w
   \<and> aqm300s (snd (PmmVirtualSensor_update poll self w)) = aqm300s w
   \<and> (pmm_sensors (snd (PmmVirtualSensor_update poll self w)) self)
        \<lparr>pmm_attr_native_value := x, pmm_attr_available := y\<rparr>
       = (pmm_sensors w self)\<lparr>pmm_attr_native_value := x, pmm_attr_available := y\<rparr>
   \<and> (other' \<noteq> self' \<longrightarrow>
      aqm_sensors (snd (AqmVirtualSensor_update poll' self' w)) other' = aqm_sensors w other')
   \<and> (q' \<noteq> aqm_proxy (aqm_sensors w self') \<longrightarrow>
      aqm300s (snd (AqmVirtualSensor_update poll' self' w)) q' = aqm300s w q')
   \<and> pmm_sensors (snd (AqmVirtualSensor_update poll' self' w)) = pmm_sensors w
   \<and> pmm300s (snd (AqmVirtualSensor_update poll' self' w)) = pmm300s w
   \<and> (aqm_sensors (snd (AqmVirtualSensor_update poll' self' w)) self')
        \<lparr>aqm_attr_native_value := x', aqm_attr_available := y'\<rparr>
       = (aqm_sensors w self')\<lparr>aqm_attr_native_value := x', aqm_attr_available := y'\<rparr>"
proof -
  have p: "(other \<noteq> self \<longrightarrow>
      pmm_sensors (snd (PmmVirtualSensor_update poll self w)) other = pmm_sensors w other)
   \<and> (q \<noteq> pmm_proxy (pmm_sensors w self) \<longrightarrow>
      pmm300s (snd (PmmVirtualSensor_update poll self w)) q = pmm300s w q)
   \<and> aqm_sensors (snd (PmmVirtualSensor_update poll self w)) = aqm_sensors w
   \<and> aqm300s (snd (PmmVirtualSensor_update poll self w)) = aqm300s w
   \<and> (pmm_sensors (snd (PmmVirtualSensor_update poll self w)) self)
        \<lparr>pmm_attr_native_value := x, pmm_attr_available := y\<rparr>
       = (pmm_sensors w self)\<lparr>pmm_attr_native_value := x, pmm_attr_available := y\<rparr>"
    by (cases "pmm_handler (pmm_sensors w self) (registers (pmm_polled poll self w))")
       (simp_all add: pmm_update_raises pmm_update_returns poll_step_frame)
  have a: "(other' \<noteq> self' \<longrightarrow>
      aqm_sensors (snd (AqmVirtualSensor_update poll' self' w)) other' = aqm_sensors w other')
   \<and> (q' \<noteq> aqm_proxy (aqm_sensors w self') \<longrightarrow>
      aqm300s (snd (AqmVirtualSensor_update poll' self' w)) q' = aqm300s w q')
   \<and> pmm_sensors (snd (AqmVirtualSensor_update poll' self' w)) = pmm_sensors w
   \<and> pmm300s (snd (AqmVirtualSensor_update poll' self' w)) = pmm300s w
   \<and> (aqm_sensors (snd (AqmVirtualSensor_update poll' self' w)) self')
        \<lparr>aqm_attr_native_value := x', aqm_attr_available := y'\<rparr>
       = (aqm_sensors w self')\<lparr>aqm_attr_native_value := x', aqm_attr_available := y'\<rparr>"
    by (cases "aqm_handler (aqm_sensors w self') (registers (aqm_polled poll' self' w))")
       (simp_all add: aqm_update_raises aqm_update_returns poll_step_frame)
  show ?thesis using p a by blast
qed

theorem refresh_frame_witness:
  "(1::nat) \<noteq> 0
   \<and> pmm_sensors (snd (PmmVirtualSensor_update poll_unreachable 0 example_world)) 1
       = pmm_sensors example_world 1
   \<and> 1 \<noteq> pmm_proxy (pmm_sensors example_world 0)
   \<and> pmm300s (snd (PmmVirtualSensor_update poll_unreachable 0 example_world)) 1
       = pmm300s example_world 1
   \<and> (1::nat) \<noteq> 2
   \<and> aqm_sensors (snd (AqmVirtualSensor_update poll_unreachable 2 example_world)) 1
       = aqm_sensors example_world 1
   \<and> 1 \<noteq> aqm_proxy (aqm_sensors example_world 2)
   \<and> aqm300s (snd (AqmVirtualSensor_update poll_unreachable 2 example_world)) 1
       = aqm300s example_world 1"
  using refresh_frame
    [where other = 1 and self = 0 and poll = poll_unreachable and w = example_world
       and q = 1 and other' = 1 and self' = 2 and poll' = poll_unreachable and q' = 1]
  by (simp add: example_pmm_sensor0 example_aqm_sensor2)

section \<open>Setting up a config entry\<close>

lemma pmm_sub_entities:
  "\<exists>ss. Pmm300_get_sub_entities a p = Inr ss \<and> length ss = 14
     \<and> map pmm_handler ss = map (\<lambda>k. pmm_decode k) [ PMM_KEY_POWER, PMM_KEY_THIS_MONTH_ENERGY, PMM_KEY_THIS_DAY_ENERGY, PMM_KEY_TOTAL,
            PMM_KEY_VOLTAGE, PMM_KEY_CURRENT, PMM_KEY_POWER_FACTOR, PMM_KEY_FREQUENCY,
            PMM_KEY_THIS_HOUR_ENERGY, PMM_KEY_BEFORE_HOUR_ENERGY, PMM_KEY_YESTERDAY_ENERGY,
            PMM_KEY_LAST_MONTH_ENERGY, PMM_KEY_TWO_MONTHS_AGO_ENERGY,
            PMM_KEY_THIS_MONTH_FORECAST_ENERGY ]"
  by (simp add: Pmm300_get_sub_entities_def dict_getitem_def PMM_GENERIC_SENSOR_DEFINE_def
        PmmVirtualSensor_init_def PMM_KEY_defs pmm_decode_def fun_eq_iff Let_def)

lemma pmm_sub_entities_ids:
  "\<exists>ss. Pmm300_get_sub_entities a p = Inr ss \<and> length ss = 14
     \<and> map pmm_attr_unique_id ss =
          map (\<lambda>k. device_type p @ ''-'' @ mac p @ ''-'' @ k)
            [ PMM_KEY_POWER, PMM_KEY_THIS_MONTH_ENERGY, PMM_KEY_THIS_DAY_ENERGY, PMM_KEY_TOTAL,
              PMM_KEY_VOLTAGE, PMM_KEY_CURRENT, PMM_KEY_POWER_FACTOR, PMM_KEY_FREQUENCY,
              PMM_KEY_THIS_HOUR_ENERGY, PMM_KEY_BEFORE_HOUR_ENERGY, PMM_KEY_YESTERDAY_ENERGY,
              PMM_KEY_LAST_MONTH_ENERGY, PMM_KEY_TWO_MONTHS_AGO_ENERGY,
              PMM_KEY_THIS_MONTH_FORECAST_ENERGY ]
     \<and> distinct (map pmm_attr_unique_id ss)"
  by (simp add: Pmm300_get_sub_entities_def dict_getitem_def PMM_GENERIC_SENSOR_DEFINE_def
        PmmVirtualSensor_init_def PMM_KEY_defs Let_def)

lemma aqm_sub_entities:
  "\<exists>ss. Aqm300_get_sub_entities a p = Inr ss \<and> length ss = 7
     \<and> map aqm_handler ss =
          map aqm_decode
            [''co2'', ''pm25'', ''pm10'', ''tvoc'', ''humidity'', ''illuminance'', ''temperature'']"
  by (simp add: Aqm300_get_sub_entities_def dict_getitem_def AQM_GENERIC_SENSOR_DEFINE_def
        AqmVirtualSensor_init_def aqm_decode_def fun_eq_iff Let_def)

lemma registered_models_add_entities:
  "CONF_TYPE (data entry) = ''PMM'' \<Longrightarrow>
     \<exists>pmm ss. async_setup_entry super_init a entry = Inr (PmmAdded pmm ss) \<and> length ss = 14"
  "CONF_TYPE (data entry) = ''AQM'' \<Longrightarrow>
     \<exists>aqm ss. async_setup_entry super_init a entry = Inr (AqmAdded aqm ss) \<and> length ss = 7"
proof -
  assume t: "CONF_TYPE (data entry) = ''PMM''"
  define pmm where "pmm = Pmm300_init super_init (Device_init ''PMM300'' entry)
      (CONF_IP (data entry)) (CONF_MAC (data entry)) (CONF_TYPE (data entry))
      (CONF_CFG (data entry)) None"
  obtain ss where "Pmm300_get_sub_entities a pmm = Inr ss" "length ss = 14"
    using pmm_sub_entities by blast
  then show "\<exists>pmm ss. async_setup_entry super_init a entry = Inr (PmmAdded pmm ss)
      \<and> length ss = 14"
    using t by (simp add: async_setup_entry_def Let_def pmm_def)
next
  assume t: "CONF_TYPE (data entry) = ''AQM''"
  define aqm where "aqm = Aqm300_init super_init
      (CONF_IP (data entry)) (CONF_MAC (data entry)) (CONF_TYPE (data entry))
      (CONF_CFG (data entry)) None"
  obtain ss where "Aqm300_get_sub_entities a aqm = Inr ss" "length ss = 7"
    using aqm_sub_entities by blast
  then show "\<exists>aqm ss. async_setup_entry super_init a entry = Inr (AqmAdded aqm ss)
      \<and> length ss = 7"
    using t by (simp add: async_setup_entry_def Let_def aqm_def)
qed

text \<open>
  Claim C6, as the code has it. \<^verbatim>\<open>async_setup_entry\<close> compares the entry's type with
  \<^verbatim>\<open>"PMM"\<close> and \<^verbatim>\<open>"AQM"\<close> and has no other branch: for every other type it
  returns normally without creating a proxy and without adding an entity.
\<close>

theorem unknown_model_adds_nothing:
  "CONF_TYPE (data entry) \<noteq> ''PMM'' \<Longrightarrow> CONF_TYPE (data entry) \<noteq> ''AQM'' \<Longrightarrow>
   async_setup_entry super_init a entry = Inr NothingAdded"
  by (simp add: async_setup_entry_def)

theorem unknown_model_adds_nothing_witness:
  "CONF_TYPE (data unknown_entry) \<noteq> ''PMM'' \<and> CONF_TYPE (data unknown_entry) \<noteq> ''AQM''
   \<and> async_setup_entry example_init 0 unknown_entry = Inr NothingAdded"
  using unknown_model_adds_nothing [of unknown_entry example_init 0]
  by (simp add: unknown_entry_def)

text \<open>
  The claim as stated fails: the type \<^verbatim>\<open>"XYZ"\<close> is none of the registered names, and
  the setup returns normally instead of raising an error.
\<close>

theorem unknown_model_no_error:
  "CONF_TYPE (data unknown_entry) \<notin> {''PMM'', ''PMM300'', ''AQM'', ''AQM300''}
   \<and> async_setup_entry example_init 0 unknown_entry = Inr NothingAdded"
  by (simp add: unknown_entry_def async_setup_entry_def)

text \<open>
  Claim C10. The seven sensors \<^verbatim>\<open>Aqm300.get_sub_entities\<close> builds have pairwise
  distinct unique identifiers: each identifier is the device type, the MAC address and the
  device class of the table entry, and the seven device classes are pairwise distinct. The
  identifiers of the fourteen PMM sensors end in the \<^verbatim>\<open>sub_id\<close> of the entry instead.
\<close>

theorem aqm_unique_ids_distinct:
  "(\<exists>ss. Aqm300_get_sub_entities a p = Inr ss
      \<and> length ss = 7
      \<and> map aqm_attr_unique_id ss =
          map (\<lambda>c. device_type p @ ''-'' @ mac p @ ''-'' @ SensorDeviceClass_str c)
            [CO2, PM25, PM10, VOLATILE_ORGANIC_COMPOUNDS, HUMIDITY, ILLUMINANCE, TEMPERATURE]
      \<and> map aqm_attr_device_class ss =
            [CO2, PM25, PM10, VOLATILE_ORGANIC_COMPOUNDS, HUMIDITY, ILLUMINANCE, TEMPERATURE]
      \<and> distinct (map aqm_attr_device_class ss)
      \<and> distinct (map aqm_attr_unique_id ss))
   \<and> (\<exists>ps. Pmm300_get_sub_entities a' p' = Inr ps
      \<and> map pmm_attr_unique_id ps =
          map (\<lambda>k. device_type p' @ ''-'' @ mac p' @ ''-'' @ k)
            [ PMM_KEY_POWER, PMM_KEY_THIS_MONTH_ENERGY, PMM_KEY_THIS_DAY_ENERGY, PMM_KEY_TOTAL,
              PMM_KEY_VOLTAGE, PMM_KEY_CURRENT, PMM_KEY_POWER_FACTOR, PMM_KEY_FREQUENCY,
              PMM_KEY_THIS_HOUR_ENERGY, PMM_KEY_BEFORE_HOUR_ENERGY, PMM_KEY_YESTERDAY_ENERGY,
              PMM_KEY_LAST_MONTH_ENERGY, PMM_KEY_TWO_MONTHS_AGO_ENERGY,
              PMM_KEY_THIS_MONTH_FORECAST_ENERGY ])"
proof -
  have aqm: "\<exists>ss. Aqm300_get_sub_entities a p = Inr ss
      \<and> length ss = 7
      \<and> map aqm_attr_unique_id ss =
          map (\<lambda>c. device_type p @ ''-'' @ mac p @ ''-'' @ SensorDeviceClass_str c)
            [CO2, PM25, PM10, VOLATILE_ORGANIC_COMPOUNDS, HUMIDITY, ILLUMINANCE, TEMPERATURE]
      \<and> map aqm_attr_device_class ss =
            [CO2, PM25, PM10, VOLATILE_ORGANIC_COMPOUNDS, HUMIDITY, ILLUMINANCE, TEMPERATURE]
      \<and> distinct (map aqm_attr_device_class ss)
      \<and> distinct (map aqm_attr_unique_id ss)"
    by (simp add: Aqm300_get_sub_entities_def dict_getitem_def AQM_GENERIC_SENSOR_DEFINE_def
          AqmVirtualSensor_init_def Let_def)
  obtain ps where "Pmm300_get_sub_entities a' p' = Inr ps"
    and "map pmm_attr_unique_id ps =
          map (\<lambda>k. device_type p' @ ''-'' @ mac p' @ ''-'' @ k)
            [ PMM_KEY_POWER, PMM_KEY_THIS_MONTH_ENERGY, PMM_KEY_THIS_DAY_ENERGY, PMM_KEY_TOTAL,
              PMM_KEY_VOLTAGE, PMM_KEY_CURRENT, PMM_KEY_POWER_FACTOR, PMM_KEY_FREQUENCY,
              PMM_KEY_THIS_HOUR_ENERGY, PMM_KEY_BEFORE_HOUR_ENERGY, PMM_KEY_YESTERDAY_ENERGY,
              PMM_KEY_LAST_MONTH_ENERGY, PMM_KEY_TWO_MONTHS_AGO_ENERGY,
              PMM_KEY_THIS_MONTH_FORECAST_ENERGY ]"
    using pmm_sub_entities_ids [of a' p'] by blast
  then show ?thesis using aqm by blast
qed

end
